theory Spec2Isabelle
  imports Complex_Main
begin

section \<open>Numbers, dates and rounding\<close>

text \<open>
  The loan ledger lives in two React components: the loan details modal
  (\<^verbatim>\<open>src/components/ui/loan-details-modal.tsx\<close>) and the analytics page.  Their arithmetic
  is on JavaScript numbers.  Amounts and rates are modelled as exact rationals, so the
  model is the ledger's arithmetic without the representation error of IEEE doubles.
  A date is the millisecond timestamp that \<^verbatim>\<open>new Date(s).getTime()\<close> yields.

  \<^verbatim>\<open>parseFloat(x.toFixed(2))\<close> rounds to the nearest hundredth; ECMAScript's
  \<^verbatim>\<open>toFixed\<close> treats a negative number through its absolute value and, of two equally
  near candidates, picks the larger one.
\<close>

definition toFixed2 :: "rat \<Rightarrow> rat" where
  "toFixed2 x =
     (if x < 0 then - (of_int \<lfloor>(- x) * 100 + 1 / 2\<rfloor> / 100)
      else of_int \<lfloor>x * 100 + 1 / 2\<rfloor> / 100)"

text \<open>
  \<^verbatim>\<open>Date.prototype.setMonth\<close> is the platform's calendar arithmetic and is a parameter
  \<open>setMonth\<close> of the functions that use it (\<open>setMonth t n\<close> is the timestamp \<open>t\<close> moved
  \<open>n\<close> months ahead).  For concrete runs, \<open>setMonth_utc\<close> is that arithmetic in the UTC
  time zone on the proleptic Gregorian calendar: the day of the month is kept and a day
  beyond the end of the target month rolls over into the next one.
\<close>

definition days_from_civil :: "int \<Rightarrow> int \<Rightarrow> int \<Rightarrow> int" where
  "days_from_civil y m d =
     (let y' = (if m \<le> 2 then y - 1 else y);
          era = y' div 400;
          yoe = y' - era * 400;
          mp = (m + 9) mod 12;
          doy = (153 * mp + 2) div 5 + d - 1;
          doe = yoe * 365 + yoe div 4 - yoe div 100 + doy
      in era * 146097 + doe - 719468)"

definition civil_from_days :: "int \<Rightarrow> int \<times> int \<times> int" where
  "civil_from_days z =
     (let z' = z + 719468;
          era = z' div 146097;
          doe = z' - era * 146097;
          yoe = (doe - doe div 1460 + doe div 36524 - doe div 146096) div 365;
          doy = doe - (365 * yoe + yoe div 4 - yoe div 100);
          mp = (5 * doy + 2) div 153;
          d = doy - (153 * mp + 2) div 5 + 1;
          m = (if mp < 10 then mp + 3 else mp - 9);
          y = yoe + era * 400
      in (if m \<le> 2 then y + 1 else y, m, d))"

definition setMonth_utc :: "int \<Rightarrow> int \<Rightarrow> int" where
  "setMonth_utc t n =
     (let (y, m, d) = civil_from_days (t div 86400000);
          k = m - 1 + n
      in days_from_civil (y + k div 12) (k mod 12 + 1) d * 86400000 + t mod 86400000)"

text \<open>\<^verbatim>\<open>new Date().toISOString().split('T')[0]\<close>: the current instant cut to its UTC day.\<close>

definition isoDate :: "int \<Rightarrow> int" where
  "isoDate now = now - now mod 86400000"

section \<open>Data model\<close>

text \<open>
  The interfaces \<^verbatim>\<open>Loan\<close> and \<^verbatim>\<open>Repayment\<close>, with the fields the ledger reads or
  writes.  Identifiers, names and creation timestamps are bookkeeping of the data store and
  are left out.  The status is the string the code stores: \<^verbatim>\<open>'active'\<close>,
  \<^verbatim>\<open>'principal paid'\<close> or \<^verbatim>\<open>'finished'\<close>.
\<close>

record loan =
  amount :: rat
  interest_rate :: rat
  term_months :: int
  start_date :: int
  status :: string

record repayment =
  repayment_date :: int
  amount_paid :: rat
  interest_amount :: rat
  remaining_balance :: rat
  payment_method :: string
  repayment_notes :: string

record payment_form =
  amountPaid :: rat
  paymentMethod :: string
  repaymentDate :: int
  form_notes :: string

text \<open>
  The data store as the modal sees it: the loan's row of the \<^verbatim>\<open>loans\<close> table, the loan's
  repayment table in insertion order, and the sequence of status values written by
  \<^verbatim>\<open>updateLoanStatus\<close> so far.  Calls to the store are taken to succeed.
\<close>

record db =
  db_loan :: loan
  db_repayments :: "repayment list"
  status_updates :: "string list"

text \<open>The component state (the \<^verbatim>\<open>useState\<close> cells) that the ledger logic reads.\<close>

record ui_state =
  repayments :: "repayment list"
  daysSinceLastRepayment :: int
  projectedInterest :: rat
  isPrincipalPaid :: bool
  totalAmountPaid :: rat
  remainingPrincipal :: rat
  remainingBalance :: rat

definition initial_ui :: ui_state where
  "initial_ui =
     \<lparr>repayments = [], daysSinceLastRepayment = 0, projectedInterest = 0,
      isPrincipalPaid = False, totalAmountPaid = 0, remainingPrincipal = 0,
      remainingBalance = 0\<rparr>"

section \<open>Queries on the repayment table\<close>

text \<open>
  \<^verbatim>\<open>.order('repayment_date', { ascending: true })\<close> and its descending form.  The store
  leaves the order of rows with equal dates open; the model keeps their insertion order
  when ascending, so that among the rows of the latest date the one inserted last counts
  as the most recent.
\<close>

definition order_asc :: "repayment list \<Rightarrow> repayment list" where
  "order_asc rows = sort_key repayment_date rows"

definition order_desc :: "repayment list \<Rightarrow> repayment list" where
  "order_desc rows = rev (sort_key repayment_date rows)"

definition updateLoanStatus :: "db \<Rightarrow> string \<Rightarrow> db" where
  "updateLoanStatus d s =
     d\<lparr>db_loan := (db_loan d)\<lparr>status := s\<rparr>, status_updates := status_updates d @ [s]\<rparr>"

definition insert_repayment :: "db \<Rightarrow> repayment \<Rightarrow> db" where
  "insert_repayment d r = d\<lparr>db_repayments := db_repayments d @ [r]\<rparr>"

section \<open>The loan details modal\<close>

subsection \<open>fetchRepayments\<close>

definition fetchRepayments :: "int \<Rightarrow> db \<Rightarrow> ui_state \<Rightarrow> ui_state" where
  "fetchRepayments now d st =
     (let loanData = db_loan d;
          data = order_desc (db_repayments d);
          st1 = st\<lparr>repayments := data\<rparr>
      in case data of
           lastRepayment # _ \<Rightarrow>
             (let lastRepaymentDate = repayment_date lastRepayment;
                  diffTime = \<bar>now - lastRepaymentDate\<bar>;
                  diffDays = \<lceil>(of_int diffTime :: rat) / (1000 * 60 * 60 * 24)\<rceil>;
                  dailyInterestRate = interest_rate loanData / 100 / 365;
                  projected = remaining_balance lastRepayment * dailyInterestRate * 30
              in st1\<lparr>daysSinceLastRepayment := diffDays,
                     projectedInterest := toFixed2 projected,
                     remainingBalance := remaining_balance lastRepayment\<rparr>)
         | [] \<Rightarrow>
             st1\<lparr>daysSinceLastRepayment := 0,
                 projectedInterest := 0,
                 remainingBalance := amount loanData\<rparr>)"

subsection \<open>openPaymentModal\<close>

definition openPaymentModal :: "db \<Rightarrow> ui_state \<Rightarrow> db \<times> ui_state" where
  "openPaymentModal d st =
     (let loan = db_loan d;
          data = order_asc (db_repayments d);
          total = (if data \<noteq> [] then foldl (\<lambda>sum r. sum + amount_paid r) 0 data else 0);
          st1 = (if data \<noteq> []
                 then st\<lparr>totalAmountPaid := total,
                         remainingBalance := remaining_balance (last data)\<rparr>
                 else st\<lparr>remainingBalance := amount loan\<rparr>);
          remainingPrincipalAmount = max 0 (amount loan - total);
          isPaid = (total \<ge> amount loan);
          st2 = st1\<lparr>remainingPrincipal := remainingPrincipalAmount, isPrincipalPaid := isPaid\<rparr>
      in (if isPaid \<and> status loan = ''active''
          then updateLoanStatus d ''principal paid'' else d, st2))"

subsection \<open>validatePaymentInput\<close>

text \<open>
  The field and the value validated come together; the result is the boolean the function
  returns and the message it stores for that field (\<open>NoError\<close> is the empty string).
\<close>

datatype field_value = Amount rat | Date int

datatype error_message =
    NoError
  | AmountNotPositive
  | AmountExceedsBalance rat
  | DateBeforePrevious int
  | DateExceedsTerm int

fun validatePaymentInput ::
  "(int \<Rightarrow> int \<Rightarrow> int) \<Rightarrow> loan \<Rightarrow> ui_state \<Rightarrow> field_value \<Rightarrow> bool \<times> error_message" where
  "validatePaymentInput setMonth loan st (Amount amountValue) =
     (if amountValue \<le> 0 then (False, AmountNotPositive)
      else if amountValue > remainingBalance st
        then (False, AmountExceedsBalance (remainingBalance st))
      else (True, NoError))"
| "validatePaymentInput setMonth loan st (Date selectedDate) =
     (let startDate = start_date loan;
          mostRecentRepaymentDate =
            (case repayments st of [] \<Rightarrow> startDate | r # _ \<Rightarrow> repayment_date r);
          endDate = setMonth startDate (term_months loan)
      in if selectedDate < mostRecentRepaymentDate
           then (False, DateBeforePrevious mostRecentRepaymentDate)
         else if selectedDate > endDate then (False, DateExceedsTerm endDate)
         else (True, NoError))"

subsection \<open>calculateInterest\<close>

text \<open>The first argument is the state cell \<^verbatim>\<open>isPrincipalPaid\<close> that the closure reads.\<close>

definition calculateInterest :: "bool \<Rightarrow> repayment \<Rightarrow> int \<Rightarrow> rat \<Rightarrow> rat" where
  "calculateInterest principalPaid previousRepayment currentRepaymentDate interestRate =
     (if principalPaid then 0
      else
        (let prevDate = repayment_date previousRepayment;
             currentDate = currentRepaymentDate;
             diffTime = \<bar>currentDate - prevDate\<bar>;
             diffDays = \<lceil>(of_int diffTime :: rat) / (1000 * 60 * 60 * 24)\<rceil>;
             dailyInterestRate = interestRate / 100 / 365;
             interestAmount =
               remaining_balance previousRepayment * dailyInterestRate * of_int diffDays
         in toFixed2 interestAmount))"

subsection \<open>handleSubmitPayment\<close>

datatype outcome =
    Submitted
  | ValidationError error_message error_message
  | SubmitError string

definition handleSubmitPayment ::
  "(int \<Rightarrow> int \<Rightarrow> int) \<Rightarrow> int \<Rightarrow> payment_form \<Rightarrow> db \<Rightarrow> ui_state \<Rightarrow> outcome \<times> db \<times> ui_state" where
  "handleSubmitPayment setMonth now form d st =
     (let loan = db_loan d;
          amountCheck = validatePaymentInput setMonth loan st (Amount (amountPaid form));
          dateCheck = validatePaymentInput setMonth loan st (Date (repaymentDate form))
      in if \<not> fst amountCheck \<or> \<not> fst dateCheck
         then (ValidationError (snd amountCheck) (snd dateCheck), d, st)
         else
           (case order_desc (db_repayments d) of
              [] \<Rightarrow> (SubmitError ''No previous repayment record found'', d, st)
            | previousRepayment # _ \<Rightarrow>
                (let interestAmount =
                       calculateInterest (isPrincipalPaid st) previousRepayment
                         (repaymentDate form) (interest_rate loan);
                     newRemainingBalance =
                       (if isPrincipalPaid st
                        then remaining_balance previousRepayment - amountPaid form
                        else remaining_balance previousRepayment - amountPaid form
                             + interestAmount);
                     newTotalPaid = totalAmountPaid st + amountPaid form;
                     willPrincipalBePaid =
                       (\<not> isPrincipalPaid st \<and> newTotalPaid \<ge> amount loan);
                     d1 = (if willPrincipalBePaid
                           then updateLoanStatus d ''principal paid'' else d);
                     st1 = (if willPrincipalBePaid then st\<lparr>isPrincipalPaid := True\<rparr> else st);
                     d2 = (if newRemainingBalance \<le> 0
                           then updateLoanStatus d1 ''finished'' else d1);
                     d3 = insert_repayment d2
                            \<lparr>repayment_date = repaymentDate form,
                             amount_paid = amountPaid form,
                             interest_amount = interestAmount,
                             remaining_balance = max 0 newRemainingBalance,
                             payment_method = paymentMethod form,
                             repayment_notes = form_notes form\<rparr>
                 in (Submitted, d3, fetchRepayments now d3 st1))))"

subsection \<open>handleMarkAsFinished\<close>

definition handleMarkAsFinished :: "int \<Rightarrow> db \<Rightarrow> ui_state \<Rightarrow> db \<times> ui_state" where
  "handleMarkAsFinished now d st =
     (let d1 = updateLoanStatus d ''finished''
      in if remainingBalance st > 0
         then
           (let d2 = insert_repayment d1
                       \<lparr>repayment_date = isoDate now,
                        amount_paid = remainingBalance st,
                        interest_amount = 0,
                        remaining_balance = 0,
                        payment_method = ''System'',
                        repayment_notes =
                          ''Loan marked as finished (balance less than ''
                          @ [CHR 0xE2, CHR 0x82, CHR 0xB9] @ ''100)''\<rparr>
            in (d2, fetchRepayments now d2 st))
         else (d1, st))"

subsection \<open>What the modal offers\<close>

text \<open>
  The two buttons are rendered under conditions: ``Mark as Finished'' only while the
  balance cell is strictly between 0 and 100 and the loan is not finished, ``Record New
  Payment'' only while the loan is not finished.  The \<^verbatim>\<open>loan\<close> prop is taken to show
  the loan's row as the store has it.
\<close>

definition markAsFinishedOffered :: "db \<Rightarrow> ui_state \<Rightarrow> bool" where
  "markAsFinishedOffered d st =
     (remainingBalance st > 0 \<and> remainingBalance st < 100
      \<and> status (db_loan d) \<noteq> ''finished'')"

definition recordPaymentOffered :: "db \<Rightarrow> bool" where
  "recordPaymentOffered d = (status (db_loan d) \<noteq> ''finished'')"

text \<open>
  A payment recorded through the modal: the modal is opened on the loan (the effect runs
  \<open>fetchRepayments\<close> on a fresh component) and ``Record New Payment'' is clicked
  (\<open>openPaymentModal\<close>); then the form is submitted (\<open>handleSubmitPayment\<close>).
\<close>

definition openForPayment :: "int \<Rightarrow> db \<Rightarrow> db \<times> ui_state" where
  "openForPayment now d = openPaymentModal d (fetchRepayments now d initial_ui)"

definition recordPayment ::
  "(int \<Rightarrow> int \<Rightarrow> int) \<Rightarrow> int \<Rightarrow> payment_form \<Rightarrow> db \<Rightarrow> outcome \<times> db" where
  "recordPayment setMonth now form d =
     (let opened = openForPayment now d;
          res = handleSubmitPayment setMonth now form (fst opened) (snd opened)
      in (fst res, fst (snd res)))"

text \<open>Successive payments, each with the instant at which it is entered.\<close>

fun recordPayments ::
  "(int \<Rightarrow> int \<Rightarrow> int) \<Rightarrow> (int \<times> payment_form) list \<Rightarrow> db \<Rightarrow> db" where
  "recordPayments setMonth [] d = d"
| "recordPayments setMonth (c # cs) d =
     recordPayments setMonth cs (snd (recordPayment setMonth (fst c) (snd c) d))"

text \<open>
  Marking as finished through the modal: the modal is opened on the loan and the handler
  runs (\<open>markFinished\<close>); \<open>clickMarkAsFinished\<close> is the same behind the button's
  condition.
\<close>

definition markFinished :: "int \<Rightarrow> db \<Rightarrow> db" where
  "markFinished now d = fst (handleMarkAsFinished now d (fetchRepayments now d initial_ui))"

definition clickMarkAsFinished :: "int \<Rightarrow> db \<Rightarrow> db" where
  "clickMarkAsFinished now d =
     (if markAsFinishedOffered d (fetchRepayments now d initial_ui)
      then markFinished now d else d)"

datatype action = RecordPayment payment_form | MarkAsFinished

fun perform :: "(int \<Rightarrow> int \<Rightarrow> int) \<Rightarrow> int \<Rightarrow> action \<Rightarrow> db \<Rightarrow> db" where
  "perform setMonth now (RecordPayment form) d =
     (if recordPaymentOffered d then snd (recordPayment setMonth now form d) else d)"
| "perform setMonth now MarkAsFinished d = clickMarkAsFinished now d"

section \<open>The analytics page\<close>

text \<open>
  \<open>fetchLoanMetrics\<close> reads every loan together with its repayment table; the table is
  \<open>None\<close> when its query fails, and the loop then skips the loan.
\<close>

record metrics =
  activeLoans :: nat
  interestToBePaid :: rat
  totalPrincipal :: rat
  outstandingAmount :: rat

fun metrics_loop :: "(loan \<times> repayment list option) list \<Rightarrow> rat \<times> rat \<Rightarrow> rat \<times> rat" where
  "metrics_loop [] acc = acc"
| "metrics_loop ((loan, fetched) # rest) (totalInterestToBePaid, totalOutstandingAmount) =
     (case fetched of
        None \<Rightarrow> metrics_loop rest (totalInterestToBePaid, totalOutstandingAmount)
      | Some rows \<Rightarrow>
          (case order_desc rows of
             r # _ \<Rightarrow>
               (let currentBalance = remaining_balance r;
                    dailyInterestRate = interest_rate loan / 100 / 365;
                    projectedInterest = currentBalance * dailyInterestRate * 30
                in metrics_loop rest
                     (totalInterestToBePaid + projectedInterest,
                      totalOutstandingAmount + currentBalance))
           | [] \<Rightarrow>
               (let dailyInterestRate = interest_rate loan / 100 / 365;
                    projectedInterest = amount loan * dailyInterestRate * 30
                in metrics_loop rest
                     (totalInterestToBePaid + projectedInterest,
                      totalOutstandingAmount + amount loan))))"

definition fetchLoanMetrics :: "(loan \<times> repayment list option) list \<Rightarrow> metrics" where
  "fetchLoanMetrics loans =
     (let active = filter (\<lambda>l. status (fst l) = ''active'') loans;
          principalTotal = foldl (\<lambda>sum l. sum + amount (fst l)) 0 active;
          totals = metrics_loop active (0, 0)
      in \<lparr>activeLoans = length active,
          interestToBePaid = fst totals,
          totalPrincipal = principalTotal,
          outstandingAmount = snd totals + principalTotal\<rparr>)"

section \<open>The notions of the specification\<close>

text \<open>
  The most recent repayment by date, the current balance (its remaining balance, or the
  principal when the loan has no repayment), the date of the previous ledger event (its
  date, or the loan's start date) and the total paid so far.
\<close>

definition latest_repayment :: "db \<Rightarrow> repayment option" where
  "latest_repayment d = (case order_desc (db_repayments d) of [] \<Rightarrow> None | r # _ \<Rightarrow> Some r)"

definition current_balance :: "db \<Rightarrow> rat" where
  "current_balance d =
     (case latest_repayment d of None \<Rightarrow> amount (db_loan d) | Some r \<Rightarrow> remaining_balance r)"

definition previous_date :: "db \<Rightarrow> int" where
  "previous_date d =
     (case latest_repayment d of None \<Rightarrow> start_date (db_loan d) | Some r \<Rightarrow> repayment_date r)"

definition total_paid :: "repayment list \<Rightarrow> rat" where
  "total_paid rows = sum_list (map amount_paid rows)"

text \<open>
  The preconditions of recording a payment, negated: the amount is not positive or exceeds
  the current balance, or the date lies before the previous ledger event or beyond the
  loan's term.
\<close>

definition preconditions_violated ::
  "(int \<Rightarrow> int \<Rightarrow> int) \<Rightarrow> db \<Rightarrow> payment_form \<Rightarrow> bool" where
  "preconditions_violated setMonth d form =
     (amountPaid form \<le> 0 \<or> amountPaid form > current_balance d
      \<or> repaymentDate form < previous_date d
      \<or> repaymentDate form > setMonth (start_date (db_loan d)) (term_months (db_loan d)))"

text \<open>
  What the two validations of a submission reject, on the cells of the component state.
\<close>

definition input_invalid ::
  "(int \<Rightarrow> int \<Rightarrow> int) \<Rightarrow> loan \<Rightarrow> ui_state \<Rightarrow> payment_form \<Rightarrow> bool" where
  "input_invalid setMonth l st form =
     (amountPaid form \<le> 0 \<or> amountPaid form > remainingBalance st
      \<or> repaymentDate form < (case repayments st of [] \<Rightarrow> start_date l | r # _ \<Rightarrow> repayment_date r)
      \<or> repaymentDate form > setMonth (start_date l) (term_months l))"

fun is_validation_error :: "outcome \<Rightarrow> bool" where
  "is_validation_error (ValidationError a b) = True"
| "is_validation_error _ = False"

text \<open>The order of the three statuses.\<close>

definition status_rank :: "string \<Rightarrow> nat" where
  "status_rank s =
     (if s = ''finished'' then 2 else if s = ''principal paid'' then 1 else 0)"

definition known_status :: "string \<Rightarrow> bool" where
  "known_status s = (s = ''active'' \<or> s = ''principal paid'' \<or> s = ''finished'')"

text \<open>
  The accrual of the specification: nothing once the principal is paid off; otherwise the
  previous balance times the daily rate times the days between the two dates, the days
  rounded up and the amount rounded to two decimals (halves away from zero).
\<close>

definition round_2dp :: "rat \<Rightarrow> rat" where
  "round_2dp x = sgn x * of_int (round (\<bar>x\<bar> * 100)) / 100"

definition calendar_days :: "int \<Rightarrow> int \<Rightarrow> int" where
  "calendar_days asOfDate previousDate = \<lceil>(of_int \<bar>asOfDate - previousDate\<bar> :: rat) / 86400000\<rceil>"

definition computeAccruedInterest :: "rat \<Rightarrow> int \<Rightarrow> int \<Rightarrow> rat \<Rightarrow> bool \<Rightarrow> rat" where
  "computeAccruedInterest previousRemainingBalance previousDate asOfDate annualRatePercent
       principalPaidOff =
     (if principalPaidOff then 0
      else
        (let days = calendar_days asOfDate previousDate;
             dailyRate = annualRatePercent / 100 / 365
         in round_2dp (previousRemainingBalance * dailyRate * of_int days)))"

text \<open>
  The projection of the specification, the outstanding balance of a loan given its
  repayment table, the loans of a list whose table could be read, and a loan's unrounded
  projection over 30 days.
\<close>

definition projectInterest :: "rat \<Rightarrow> rat \<Rightarrow> int \<Rightarrow> bool \<Rightarrow> rat" where
  "projectInterest currentBalance annualRatePercent windowDays principalPaidOff =
     (if principalPaidOff then 0
      else
        (let dailyRate = annualRatePercent / 100 / 365
         in round_2dp (currentBalance * dailyRate * of_int windowDays)))"

definition loan_balance :: "loan \<Rightarrow> repayment list \<Rightarrow> rat" where
  "loan_balance l rows =
     (case order_desc rows of [] \<Rightarrow> amount l | r # _ \<Rightarrow> remaining_balance r)"

fun loans_read :: "(loan \<times> repayment list option) list \<Rightarrow> (loan \<times> repayment list) list" where
  "loans_read [] = []"
| "loans_read ((l, None) # rest) = loans_read rest"
| "loans_read ((l, Some rows) # rest) = (l, rows) # loans_read rest"

definition projection_30 :: "loan \<times> repayment list \<Rightarrow> rat" where
  "projection_30 lr = loan_balance (fst lr) (snd lr) * (interest_rate (fst lr) / 100 / 365) * 30"

text \<open>The closing entry that marking as finished inserts.\<close>

definition closing_entry :: "int \<Rightarrow> rat \<Rightarrow> repayment" where
  "closing_entry now balance =
     \<lparr>repayment_date = isoDate now, amount_paid = balance, interest_amount = 0,
      remaining_balance = 0, payment_method = ''System'',
      repayment_notes =
        ''Loan marked as finished (balance less than '' @ [CHR 0xE2, CHR 0x82, CHR 0xB9] @ ''100)''\<rparr>"

text \<open>
  The balance chain: each row's remaining balance is the previous balance less the amount
  paid, plus the row's interest while the total paid before the row is below the
  principal, floored at zero.
\<close>

fun chain_ok :: "rat \<Rightarrow> rat \<Rightarrow> rat \<Rightarrow> repayment list \<Rightarrow> bool" where
  "chain_ok principalAmount paidBefore previousBalance [] = True"
| "chain_ok principalAmount paidBefore previousBalance (r # rs) =
     (remaining_balance r =
        (if paidBefore \<ge> principalAmount then max 0 (previousBalance - amount_paid r)
         else max 0 (previousBalance - amount_paid r + interest_amount r))
      \<and> chain_ok principalAmount (paidBefore + amount_paid r) (remaining_balance r) rs)"

text \<open>The row a successful submission appends.\<close>

definition new_row :: "db \<Rightarrow> repayment \<Rightarrow> payment_form \<Rightarrow> repayment" where
  "new_row d prev form =
     (let paid = (total_paid (db_repayments d) \<ge> amount (db_loan d));
          interest = calculateInterest paid prev (repaymentDate form) (interest_rate (db_loan d))
      in \<lparr>repayment_date = repaymentDate form,
          amount_paid = amountPaid form,
          interest_amount = interest,
          remaining_balance = max 0 (remaining_balance prev - amountPaid form + interest),
          payment_method = paymentMethod form,
          repayment_notes = form_notes form\<rparr>)"

section \<open>A worked loan\<close>

text \<open>
  A loan of 10000 at 12 percent over 12 months from 1 January 2025 (UTC), whose repayment
  table holds an opening row: nothing paid, the principal as balance.
\<close>

definition loan_A :: loan where
  "loan_A = \<lparr>amount = 10000, interest_rate = 12, term_months = 12,
             start_date = 1735689600000, status = ''active''\<rparr>"

definition origin_A :: repayment where
  "origin_A = \<lparr>repayment_date = 1735689600000, amount_paid = 0, interest_amount = 0,
               remaining_balance = 10000, payment_method = ''Cash'', repayment_notes = ''''\<rparr>"

definition db_A :: db where
  "db_A = \<lparr>db_loan = loan_A, db_repayments = [origin_A], status_updates = []\<rparr>"

definition form_A1 :: payment_form where
  "form_A1 = \<lparr>amountPaid = 2000, paymentMethod = ''Cash'', repaymentDate = 1738281600000,
              form_notes = ''''\<rparr>"

text \<open>
  Three payments, 30, 60 and 90 days after the start: 2000, then the whole balance shown,
  then the interest that remained.  The same loan with an empty repayment table, a payment
  of exactly the balance, and one above it.
\<close>

definition form_B2 :: payment_form where
  "form_B2 = \<lparr>amountPaid = 809863 / 100, paymentMethod = ''UPI'', repaymentDate = 1740873600000,
              form_notes = ''''\<rparr>"

definition form_B3 :: payment_form where
  "form_B3 = \<lparr>amountPaid = 7988 / 100, paymentMethod = ''Bank'', repaymentDate = 1743465600000,
              form_notes = ''''\<rparr>"

definition db_empty :: db where
  "db_empty = \<lparr>db_loan = loan_A, db_repayments = [], status_updates = []\<rparr>"

definition form_full :: payment_form where
  "form_full = \<lparr>amountPaid = 10000, paymentMethod = ''Cash'', repaymentDate = 1738281600000,
              form_notes = ''''\<rparr>"

definition form_over :: payment_form where
  "form_over = \<lparr>amountPaid = 10001, paymentMethod = ''Cash'', repaymentDate = 1738281600000,
              form_notes = ''''\<rparr>"

text \<open>The store after the first two payments, and after all three.\<close>

definition db_B2 :: db where
  "db_B2 = recordPayments setMonth_utc
             [(1738300000000, form_A1), (1740900000000, form_B2)] db_A"

definition db_B3 :: db where
  "db_B3 = recordPayments setMonth_utc
             [(1738300000000, form_A1), (1740900000000, form_B2), (1743500000000, form_B3)] db_A"

text \<open>
  A loan of 5000 at 36.5 percent (a daily rate of one thousandth) paid in full on day 10:
  the interest of 50 remains as the balance and the principal is paid off.
\<close>

definition db_D :: db where
  "db_D =
     \<lparr>db_loan = \<lparr>amount = 5000, interest_rate = 365 / 10, term_months = 12,
                  start_date = 1735689600000, status = ''principal paid''\<rparr>,
      db_repayments =
        [\<lparr>repayment_date = 1735689600000, amount_paid = 0, interest_amount = 0,
          remaining_balance = 5000, payment_method = ''Cash'', repayment_notes = ''''\<rparr>,
         \<lparr>repayment_date = 1736553600000, amount_paid = 5000, interest_amount = 50,
          remaining_balance = 50, payment_method = ''Cash'', repayment_notes = ''''\<rparr>],
      status_updates = [''principal paid'']\<rparr>"

section \<open>Rounding and day counts\<close>

lemma floor_rat_numeral_div [simp]:
  "\<lfloor>(numeral a / numeral b :: rat)\<rfloor> = numeral a div numeral b"
  by (metis floor_divide_of_int_eq of_int_numeral)

lemma ceiling_rat_numeral_div [simp]:
  "\<lceil>(numeral a / numeral b :: rat)\<rceil> = - (- numeral a div numeral b)"
  by (metis ceiling_def floor_divide_of_int_eq minus_divide_left of_int_minus of_int_numeral)

lemma floor_rat_one_div [simp]:
  "\<lfloor>(1 / numeral b :: rat)\<rfloor> = 1 div numeral b"
  by (metis floor_divide_of_int_eq of_int_1 of_int_numeral)

lemma toFixed2_round_2dp: "toFixed2 x = round_2dp x"
  by (cases "x < 0"; cases "x = 0") (simp_all add: toFixed2_def round_2dp_def round_def sgn_if)

lemma toFixed2_near: "\<bar>toFixed2 x - x\<bar> \<le> 1 / 200"
proof -
  have r: "\<bar>of_int \<lfloor>y + 1 / 2\<rfloor> - y\<bar> \<le> 1 / 2" for y :: rat
    using of_int_round_abs_le [of y] by (simp add: round_def)
  show ?thesis
  proof (cases "x < 0")
    case True
    have "\<bar>toFixed2 x - x\<bar> = \<bar>of_int \<lfloor>(- x) * 100 + 1 / 2\<rfloor> - (- x) * 100\<bar> / 100"
      using True by (simp add: toFixed2_def abs_if field_simps)
    also have "\<dots> \<le> (1 / 2) / 100"
      using r [of "(- x) * 100"] by (simp add: divide_right_mono)
    finally show ?thesis by simp
  next
    case False
    have "\<bar>toFixed2 x - x\<bar> = \<bar>of_int \<lfloor>x * 100 + 1 / 2\<rfloor> - x * 100\<bar> / 100"
      using False by (simp add: toFixed2_def abs_if field_simps)
    also have "\<dots> \<le> (1 / 2) / 100"
      using r [of "x * 100"] by (simp add: divide_right_mono)
    finally show ?thesis by simp
  qed
qed

lemma toFixed2_hundredths: "\<exists>k::int. toFixed2 x = of_int k / 100"
proof (cases "x < 0")
  case True
  then have "toFixed2 x = of_int (- \<lfloor>(- x) * 100 + 1 / 2\<rfloor>) / 100"
    by (simp add: toFixed2_def)
  then show ?thesis by blast
next
  case False
  then have "toFixed2 x = of_int \<lfloor>x * 100 + 1 / 2\<rfloor> / 100"
    by (simp add: toFixed2_def)
  then show ?thesis by blast
qed

lemma calendar_days_props:
  "calendar_days a b = calendar_days b a" "0 \<le> calendar_days a b" "calendar_days a a = 0"
  by (simp_all add: calendar_days_def abs_minus_commute)



section \<open>Sorting by date and totals\<close>

lemma foldl_amount_paid:
  "foldl (\<lambda>sum r. sum + amount_paid r) a xs = a + sum_list (map amount_paid xs)"
  by (induction xs arbitrary: a) simp_all

lemma sum_list_insort_key:
  "sum_list (map f (insort_key k x xs)) = (f x :: rat) + sum_list (map f xs)"
  by (induction xs) simp_all

lemma sum_list_sort_key:
  "sum_list (map f (sort_key k xs)) = (sum_list (map f xs) :: rat)"
  by (induction xs) (simp_all add: sum_list_insort_key)

lemma total_paid_order_asc:
  "foldl (\<lambda>sum r. sum + amount_paid r) 0 (order_asc rows) = total_paid rows"
  by (simp add: foldl_amount_paid order_asc_def total_paid_def sum_list_sort_key)

lemma insort_key_snoc:
  "k y \<le> k x \<Longrightarrow> insort_key k y (zs @ [x]) = insort_key k y zs @ [x]"
  by (induction zs) simp_all

lemma sort_key_snoc:
  "\<forall>y\<in>set xs. k y \<le> k x \<Longrightarrow> sort_key k (xs @ [x]) = sort_key k xs @ [x]"
  by (induction xs) (simp_all add: insort_key_snoc)

lemma sorted_key_le_last:
  "sorted (map k ys) \<Longrightarrow> y \<in> set ys \<Longrightarrow> k y \<le> k (last ys)"
  by (induction ys) auto

lemma order_desc_Nil [simp]: "order_desc rows = [] \<longleftrightarrow> rows = []"
  by (cases rows) (simp_all add: order_desc_def)

lemma order_asc_Nil [simp]: "order_asc rows = [] \<longleftrightarrow> rows = []"
  by (cases rows) (simp_all add: order_asc_def)

lemma order_desc_head_latest:
  assumes "order_desc rows = r # rest" and "y \<in> set rows"
  shows "repayment_date y \<le> repayment_date r"
proof -
  let ?s = "sort_key repayment_date rows"
  from assms(1) have ne: "?s \<noteq> []" and r: "r = last ?s"
    by (auto simp: order_desc_def rev_eq_Cons_iff)
  have "y \<in> set ?s" using assms(2) by simp
  with sorted_key_le_last [of repayment_date ?s y] show ?thesis
    by (simp add: r)
qed

lemma order_desc_snoc:
  "\<forall>y\<in>set rows. repayment_date y \<le> repayment_date r \<Longrightarrow>
     order_desc (rows @ [r]) = r # order_desc rows"
  by (simp add: order_desc_def sort_key_snoc)

lemma last_order_asc:
  "order_desc rows = r # rest \<Longrightarrow> last (order_asc rows) = r"
  by (auto simp: order_desc_def order_asc_def rev_eq_Cons_iff)

section \<open>The handlers, step by step\<close>

lemma order_empty [simp]: "order_desc [] = []" "order_asc [] = []"
  by (simp_all add: order_desc_def order_asc_def)

lemma fetchRepayments_cells:
  "repayments (fetchRepayments now d st) = order_desc (db_repayments d)"
  "remainingBalance (fetchRepayments now d st) = current_balance d"
  "isPrincipalPaid (fetchRepayments now d st) = isPrincipalPaid st"
  "totalAmountPaid (fetchRepayments now d st) = totalAmountPaid st"
  by (simp_all add: fetchRepayments_def current_balance_def latest_repayment_def Let_def
      split: list.split)

lemma openPaymentModal_db:
  "fst (openPaymentModal d st) =
     (if total_paid (db_repayments d) \<ge> amount (db_loan d) \<and> status (db_loan d) = ''active''
      then updateLoanStatus d ''principal paid'' else d)"
  by (simp add: openPaymentModal_def Let_def total_paid_order_asc total_paid_def)

lemma openPaymentModal_cells:
  "repayments (snd (openPaymentModal d st)) = repayments st"
  "remainingBalance (snd (openPaymentModal d st)) = current_balance d"
  "isPrincipalPaid (snd (openPaymentModal d st)) =
     (total_paid (db_repayments d) \<ge> amount (db_loan d))"
  "db_repayments d \<noteq> [] \<Longrightarrow>
     totalAmountPaid (snd (openPaymentModal d st)) = total_paid (db_repayments d)"
  "db_repayments d = [] \<Longrightarrow>
     totalAmountPaid (snd (openPaymentModal d st)) = totalAmountPaid st"
proof -
  show "repayments (snd (openPaymentModal d st)) = repayments st"
    by (simp add: openPaymentModal_def Let_def)
  show "remainingBalance (snd (openPaymentModal d st)) = current_balance d"
  proof (cases "order_desc (db_repayments d)")
    case Nil
    then show ?thesis
      by (simp add: openPaymentModal_def Let_def current_balance_def latest_repayment_def)
  next
    case (Cons r rest)
    then have "db_repayments d \<noteq> []" by auto
    with Cons last_order_asc [OF Cons] show ?thesis
      by (simp add: openPaymentModal_def Let_def current_balance_def latest_repayment_def)
  qed
  show "isPrincipalPaid (snd (openPaymentModal d st)) =
     (total_paid (db_repayments d) \<ge> amount (db_loan d))"
    by (simp add: openPaymentModal_def Let_def total_paid_order_asc total_paid_def)
  show "db_repayments d \<noteq> [] \<Longrightarrow>
     totalAmountPaid (snd (openPaymentModal d st)) = total_paid (db_repayments d)"
    by (simp add: openPaymentModal_def Let_def total_paid_order_asc)
  show "db_repayments d = [] \<Longrightarrow>
     totalAmountPaid (snd (openPaymentModal d st)) = totalAmountPaid st"
    by (simp add: openPaymentModal_def Let_def)
qed

lemma updateLoanStatus_fields [simp]:
  "db_repayments (updateLoanStatus d s) = db_repayments d"
  "status (db_loan (updateLoanStatus d s)) = s"
  "amount (db_loan (updateLoanStatus d s)) = amount (db_loan d)"
  "interest_rate (db_loan (updateLoanStatus d s)) = interest_rate (db_loan d)"
  "term_months (db_loan (updateLoanStatus d s)) = term_months (db_loan d)"
  "start_date (db_loan (updateLoanStatus d s)) = start_date (db_loan d)"
  "status_updates (updateLoanStatus d s) = status_updates d @ [s]"
  by (simp_all add: updateLoanStatus_def)

lemma insert_repayment_fields [simp]:
  "db_repayments (insert_repayment d r) = db_repayments d @ [r]"
  "db_loan (insert_repayment d r) = db_loan d"
  "status_updates (insert_repayment d r) = status_updates d"
  by (simp_all add: insert_repayment_def)

lemma validate_fst:
  "(\<not> fst (validatePaymentInput setMonth l st (Amount (amountPaid form)))
    \<or> \<not> fst (validatePaymentInput setMonth l st (Date (repaymentDate form))))
   = input_invalid setMonth l st form"
  by (auto simp: input_invalid_def Let_def)

lemma handleSubmitPayment_invalid:
  "input_invalid setMonth (db_loan d) st form \<Longrightarrow>
     handleSubmitPayment setMonth now form d st =
       (ValidationError
          (snd (validatePaymentInput setMonth (db_loan d) st (Amount (amountPaid form))))
          (snd (validatePaymentInput setMonth (db_loan d) st (Date (repaymentDate form)))),
        d, st)"
  unfolding handleSubmitPayment_def Let_def validate_fst by simp

lemma handleSubmitPayment_no_previous:
  "\<not> input_invalid setMonth (db_loan d) st form \<Longrightarrow> db_repayments d = [] \<Longrightarrow>
     handleSubmitPayment setMonth now form d st =
       (SubmitError ''No previous repayment record found'', d, st)"
  unfolding handleSubmitPayment_def Let_def validate_fst by (simp add: order_desc_def)

lemma handleSubmitPayment_submitted:
  assumes "\<not> input_invalid setMonth (db_loan d) st form"
    and "order_desc (db_repayments d) = prev # rest"
  shows "fst (handleSubmitPayment setMonth now form d st) = Submitted"
    and "db_repayments (fst (snd (handleSubmitPayment setMonth now form d st))) =
      db_repayments d @
      [\<lparr>repayment_date = repaymentDate form,
        amount_paid = amountPaid form,
        interest_amount =
          calculateInterest (isPrincipalPaid st) prev (repaymentDate form)
            (interest_rate (db_loan d)),
        remaining_balance =
          max 0 (remaining_balance prev - amountPaid form
                 + calculateInterest (isPrincipalPaid st) prev (repaymentDate form)
                     (interest_rate (db_loan d))),
        payment_method = paymentMethod form,
        repayment_notes = form_notes form\<rparr>]"
    and "status_updates (fst (snd (handleSubmitPayment setMonth now form d st))) =
      status_updates d
      @ (if \<not> isPrincipalPaid st \<and> totalAmountPaid st + amountPaid form \<ge> amount (db_loan d)
         then [''principal paid''] else [])
      @ (if remaining_balance prev - amountPaid form
             + calculateInterest (isPrincipalPaid st) prev (repaymentDate form)
                 (interest_rate (db_loan d)) \<le> 0
         then [''finished''] else [])"
    and "status (db_loan (fst (snd (handleSubmitPayment setMonth now form d st)))) =
      (if remaining_balance prev - amountPaid form
             + calculateInterest (isPrincipalPaid st) prev (repaymentDate form)
                 (interest_rate (db_loan d)) \<le> 0
       then ''finished''
       else if \<not> isPrincipalPaid st \<and> totalAmountPaid st + amountPaid form \<ge> amount (db_loan d)
       then ''principal paid'' else status (db_loan d))"
    and "amount (db_loan (fst (snd (handleSubmitPayment setMonth now form d st)))) =
      amount (db_loan d)"
proof -
  have ci: "isPrincipalPaid st \<Longrightarrow> calculateInterest (isPrincipalPaid st) prev x y = 0" for x y
    by (simp add: calculateInterest_def)
  note defs = handleSubmitPayment_def Let_def validate_fst
  show "fst (handleSubmitPayment setMonth now form d st) = Submitted"
    unfolding defs using assms by simp
  show "db_repayments (fst (snd (handleSubmitPayment setMonth now form d st))) =
      db_repayments d @
      [\<lparr>repayment_date = repaymentDate form,
        amount_paid = amountPaid form,
        interest_amount =
          calculateInterest (isPrincipalPaid st) prev (repaymentDate form)
            (interest_rate (db_loan d)),
        remaining_balance =
          max 0 (remaining_balance prev - amountPaid form
                 + calculateInterest (isPrincipalPaid st) prev (repaymentDate form)
                     (interest_rate (db_loan d))),
        payment_method = paymentMethod form,
        repayment_notes = form_notes form\<rparr>]"
    unfolding defs using assms ci by simp
  show "status_updates (fst (snd (handleSubmitPayment setMonth now form d st))) =
      status_updates d
      @ (if \<not> isPrincipalPaid st \<and> totalAmountPaid st + amountPaid form \<ge> amount (db_loan d)
         then [''principal paid''] else [])
      @ (if remaining_balance prev - amountPaid form
             + calculateInterest (isPrincipalPaid st) prev (repaymentDate form)
                 (interest_rate (db_loan d)) \<le> 0
         then [''finished''] else [])"
    unfolding defs using assms ci by simp
  show "status (db_loan (fst (snd (handleSubmitPayment setMonth now form d st)))) =
      (if remaining_balance prev - amountPaid form
             + calculateInterest (isPrincipalPaid st) prev (repaymentDate form)
                 (interest_rate (db_loan d)) \<le> 0
       then ''finished''
       else if \<not> isPrincipalPaid st \<and> totalAmountPaid st + amountPaid form \<ge> amount (db_loan d)
       then ''principal paid'' else status (db_loan d))"
    unfolding defs using assms ci by simp
  show "amount (db_loan (fst (snd (handleSubmitPayment setMonth now form d st)))) =
      amount (db_loan d)"
    unfolding defs using assms by simp
qed

lemma handleSubmitPayment_submitted_db:
  assumes "\<not> input_invalid setMonth (db_loan d) st form"
    and "order_desc (db_repayments d) = prev # rest"
  shows "fst (snd (handleSubmitPayment setMonth now form d st)) =
     (let interest = calculateInterest (isPrincipalPaid st) prev (repaymentDate form)
                       (interest_rate (db_loan d));
          d1 = (if \<not> isPrincipalPaid st \<and> totalAmountPaid st + amountPaid form \<ge> amount (db_loan d)
                then updateLoanStatus d ''principal paid'' else d);
          d2 = (if remaining_balance prev - amountPaid form + interest \<le> 0
                then updateLoanStatus d1 ''finished'' else d1)
      in insert_repayment d2
           \<lparr>repayment_date = repaymentDate form,
            amount_paid = amountPaid form,
            interest_amount = interest,
            remaining_balance = max 0 (remaining_balance prev - amountPaid form + interest),
            payment_method = paymentMethod form,
            repayment_notes = form_notes form\<rparr>)"
proof -
  have ci: "isPrincipalPaid st \<Longrightarrow> calculateInterest (isPrincipalPaid st) prev x y = 0" for x y
    by (simp add: calculateInterest_def)
  show ?thesis
    unfolding handleSubmitPayment_def Let_def validate_fst using assms ci by simp
qed

section \<open>Recording a payment through the modal\<close>

lemma openForPayment_db:
  "fst (openForPayment now d) =
     (if total_paid (db_repayments d) \<ge> amount (db_loan d) \<and> status (db_loan d) = ''active''
      then updateLoanStatus d ''principal paid'' else d)"
  by (simp add: openForPayment_def openPaymentModal_db)

lemma openForPayment_rows [simp]:
  "db_repayments (fst (openForPayment now d)) = db_repayments d"
  "amount (db_loan (fst (openForPayment now d))) = amount (db_loan d)"
  "interest_rate (db_loan (fst (openForPayment now d))) = interest_rate (db_loan d)"
  "term_months (db_loan (fst (openForPayment now d))) = term_months (db_loan d)"
  "start_date (db_loan (fst (openForPayment now d))) = start_date (db_loan d)"
  by (simp_all add: openForPayment_db)

lemma openForPayment_cells:
  "repayments (snd (openForPayment now d)) = order_desc (db_repayments d)"
  "remainingBalance (snd (openForPayment now d)) = current_balance d"
  "isPrincipalPaid (snd (openForPayment now d)) =
     (total_paid (db_repayments d) \<ge> amount (db_loan d))"
  "totalAmountPaid (snd (openForPayment now d)) = total_paid (db_repayments d)"
proof -
  show "repayments (snd (openForPayment now d)) = order_desc (db_repayments d)"
    by (simp add: openForPayment_def openPaymentModal_cells fetchRepayments_cells)
  show "remainingBalance (snd (openForPayment now d)) = current_balance d"
    by (simp add: openForPayment_def openPaymentModal_cells)
  show "isPrincipalPaid (snd (openForPayment now d)) =
     (total_paid (db_repayments d) \<ge> amount (db_loan d))"
    by (simp add: openForPayment_def openPaymentModal_cells)
  show "totalAmountPaid (snd (openForPayment now d)) = total_paid (db_repayments d)"
    by (cases "db_repayments d = []")
      (simp_all add: openForPayment_def openPaymentModal_cells fetchRepayments_cells
        initial_ui_def total_paid_def)
qed

lemma opened_invalid:
  "input_invalid setMonth (db_loan (fst (openForPayment now d))) (snd (openForPayment now d)) form
     = preconditions_violated setMonth d form"
  by (simp add: input_invalid_def preconditions_violated_def openForPayment_cells
      previous_date_def latest_repayment_def split: list.split)

lemma recordPayment_unfold:
  "recordPayment setMonth now form d =
     (fst (handleSubmitPayment setMonth now form (fst (openForPayment now d))
             (snd (openForPayment now d))),
      fst (snd (handleSubmitPayment setMonth now form (fst (openForPayment now d))
             (snd (openForPayment now d)))))"
  by (simp add: recordPayment_def Let_def)

lemma recordPayment_violated:
  assumes "preconditions_violated setMonth d form"
  shows "is_validation_error (fst (recordPayment setMonth now form d))"
    and "snd (recordPayment setMonth now form d) = fst (openForPayment now d)"
    and "snd (handleSubmitPayment setMonth now form (fst (openForPayment now d))
             (snd (openForPayment now d))) = openForPayment now d"
  using assms handleSubmitPayment_invalid [of setMonth "fst (openForPayment now d)"
      "snd (openForPayment now d)" form now]
  by (simp_all add: recordPayment_unfold opened_invalid)

lemma recordPayment_no_previous:
  assumes "\<not> preconditions_violated setMonth d form" and "db_repayments d = []"
  shows "fst (recordPayment setMonth now form d) =
           SubmitError ''No previous repayment record found''"
    and "snd (recordPayment setMonth now form d) = fst (openForPayment now d)"
  using assms handleSubmitPayment_no_previous [of setMonth "fst (openForPayment now d)"
      "snd (openForPayment now d)" form now]
  by (simp_all add: recordPayment_unfold opened_invalid)

lemma recordPayment_submitted:
  assumes "\<not> preconditions_violated setMonth d form"
    and "order_desc (db_repayments d) = prev # rest"
  shows "fst (recordPayment setMonth now form d) = Submitted"
    and "db_repayments (snd (recordPayment setMonth now form d)) =
           db_repayments d @ [new_row d prev form]"
    and "amount (db_loan (snd (recordPayment setMonth now form d))) = amount (db_loan d)"
proof -
  let ?o = "openForPayment now d"
  have inv: "\<not> input_invalid setMonth (db_loan (fst ?o)) (snd ?o) form"
    using assms(1) by (simp add: opened_invalid)
  have od: "order_desc (db_repayments (fst ?o)) = prev # rest"
    using assms(2) by simp
  note h = handleSubmitPayment_submitted [OF inv od, of now]
  show "fst (recordPayment setMonth now form d) = Submitted"
    using h(1) by (simp add: recordPayment_unfold)
  show "db_repayments (snd (recordPayment setMonth now form d)) =
           db_repayments d @ [new_row d prev form]"
    using h(2) by (simp add: recordPayment_unfold new_row_def openForPayment_cells Let_def)
  show "amount (db_loan (snd (recordPayment setMonth now form d))) = amount (db_loan d)"
    using h(5) by (simp add: recordPayment_unfold)
qed

lemma recordPayment_submitted_db:
  assumes "\<not> preconditions_violated setMonth d form"
    and "order_desc (db_repayments d) = prev # rest"
  shows "snd (recordPayment setMonth now form d) =
     (let paid = (total_paid (db_repayments d) \<ge> amount (db_loan d));
          d0 = (if paid \<and> status (db_loan d) = ''active''
                then updateLoanStatus d ''principal paid'' else d);
          d1 = (if \<not> paid \<and> total_paid (db_repayments d) + amountPaid form \<ge> amount (db_loan d)
                then updateLoanStatus d0 ''principal paid'' else d0);
          d2 = (if remaining_balance prev - amountPaid form
                     + interest_amount (new_row d prev form) \<le> 0
                then updateLoanStatus d1 ''finished'' else d1)
      in insert_repayment d2 (new_row d prev form))"
proof -
  let ?o = "openForPayment now d"
  have inv: "\<not> input_invalid setMonth (db_loan (fst ?o)) (snd ?o) form"
    using assms(1) by (simp add: opened_invalid)
  have od: "order_desc (db_repayments (fst ?o)) = prev # rest"
    using assms(2) by simp
  show ?thesis
    unfolding recordPayment_unfold snd_conv
      handleSubmitPayment_submitted_db [OF inv od] openForPayment_cells
      openForPayment_rows new_row_def Let_def
    by (simp add: openForPayment_db)
qed

lemma recordPayment_amount:
  "amount (db_loan (snd (recordPayment setMonth now form d))) = amount (db_loan d)"
proof (cases "preconditions_violated setMonth d form")
  case True
  then show ?thesis by (simp add: recordPayment_violated(2))
next
  case False
  show ?thesis
  proof (cases "order_desc (db_repayments d)")
    case Nil
    then have "db_repayments d = []" by simp
    with False show ?thesis by (simp add: recordPayment_no_previous(2))
  next
    case (Cons prev rest)
    with False show ?thesis by (simp add: recordPayment_submitted(3))
  qed
qed

lemma recordPayment_step:
  "db_repayments (snd (recordPayment setMonth now form d)) = db_repayments d
   \<or> (\<exists>r. db_repayments (snd (recordPayment setMonth now form d)) = db_repayments d @ [r]
         \<and> chain_ok (amount (db_loan d)) (total_paid (db_repayments d)) (current_balance d) [r]
         \<and> current_balance (snd (recordPayment setMonth now form d)) = remaining_balance r)"
proof (cases "preconditions_violated setMonth d form")
  case True
  then show ?thesis by (simp add: recordPayment_violated(2))
next
  case False
  show ?thesis
  proof (cases "order_desc (db_repayments d)")
    case Nil
    then have "db_repayments d = []" by simp
    with False show ?thesis by (simp add: recordPayment_no_previous(2))
  next
    case (Cons prev rest)
    let ?r = "new_row d prev form"
    let ?d' = "snd (recordPayment setMonth now form d)"
    have rows: "db_repayments ?d' = db_repayments d @ [?r]"
      using False Cons by (rule recordPayment_submitted(2))
    have bal: "current_balance d = remaining_balance prev"
      using Cons by (simp add: current_balance_def latest_repayment_def)
    have chain: "chain_ok (amount (db_loan d)) (total_paid (db_repayments d))
        (current_balance d) [?r]"
      by (simp add: bal new_row_def Let_def calculateInterest_def)
    have "repayment_date prev \<le> repaymentDate form"
      using False Cons
      by (simp add: preconditions_violated_def previous_date_def latest_repayment_def)
    then have "\<forall>y\<in>set (db_repayments d). repayment_date y \<le> repayment_date ?r"
      using order_desc_head_latest [OF Cons] by (fastforce simp: new_row_def Let_def)
    then have "order_desc (db_repayments d @ [?r]) = ?r # order_desc (db_repayments d)"
      by (rule order_desc_snoc)
    then have "current_balance ?d' = remaining_balance ?r"
      by (simp add: current_balance_def latest_repayment_def rows)
    with rows chain show ?thesis by blast
  qed
qed

section \<open>The balance chain\<close>



lemma recordPayment_Submitted_iff:
  "fst (recordPayment setMonth now form d) = Submitted \<longleftrightarrow>
     \<not> preconditions_violated setMonth d form \<and> db_repayments d \<noteq> []"
proof (cases "preconditions_violated setMonth d form")
  case True
  from recordPayment_violated(1) [OF True, of now] show ?thesis
    using True by (cases "fst (recordPayment setMonth now form d)") auto
next
  case False
  show ?thesis
  proof (cases "order_desc (db_repayments d)")
    case Nil
    then have "db_repayments d = []" by simp
    with False show ?thesis by (simp add: recordPayment_no_previous(1))
  next
    case (Cons prev rest)
    then have "db_repayments d \<noteq> []" by auto
    with False Cons show ?thesis by (simp add: recordPayment_submitted(1))
  qed
qed

section \<open>A loan without repayments\<close>

text \<open>
  Claim C3, as the code has it.  On a loan whose repayment table is empty, a proposal that
  satisfies the preconditions (checked against the principal and the start date) is not
  recorded: the submission stops with the error ``No previous repayment record found'',
  and neither the table nor the loan changes.
\<close>

theorem recordPayment_empty_history:
  assumes "db_repayments d = []" and "\<not> preconditions_violated setMonth d form"
  shows "recordPayment setMonth now form d =
           (SubmitError ''No previous repayment record found'', d)"
proof -
  have "0 < amount (db_loan d)"
    using assms
    by (simp add: preconditions_violated_def current_balance_def latest_repayment_def)
  then have "fst (openForPayment now d) = d"
    using assms(1) by (simp add: openForPayment_db total_paid_def)
  with recordPayment_no_previous [OF assms(2,1), of now] show ?thesis
    by (simp add: prod_eq_iff)
qed

theorem recordPayment_empty_history_witness:
  "db_repayments db_empty = [] \<and> \<not> preconditions_violated setMonth_utc db_empty form_A1
   \<and> recordPayment setMonth_utc 1738300000000 form_A1 db_empty =
         (SubmitError ''No previous repayment record found'', db_empty)"
proof -
  have a: "db_repayments db_empty = []" by (simp add: db_empty_def)
  have b: "\<not> preconditions_violated setMonth_utc db_empty form_A1" by code_simp
  from recordPayment_empty_history [OF a b] a b show ?thesis by simp
qed

text \<open>
  The worked loan with an empty table: 2000 on day 30 satisfies the preconditions, yet no
  repayment comes out of it.
\<close>

theorem first_payment_counterexample:
  "fst (recordPayment setMonth_utc 1738300000000 form_A1 db_empty) \<noteq> Submitted
   \<and> db_repayments (snd (recordPayment setMonth_utc 1738300000000 form_A1 db_empty)) = []
   \<and> db_repayments db_empty = []
   \<and> \<not> preconditions_violated setMonth_utc db_empty form_A1"
  by code_simp

section \<open>Successful submissions\<close>

lemma recordPayment_Submitted_prev:
  assumes "fst (recordPayment setMonth now form d) = Submitted"
  obtains prev rest where "order_desc (db_repayments d) = prev # rest"
    and "\<not> preconditions_violated setMonth d form"
proof -
  from assms have nv: "\<not> preconditions_violated setMonth d form" and ne: "db_repayments d \<noteq> []"
    by (simp_all add: recordPayment_Submitted_iff)
  from ne obtain prev rest where "order_desc (db_repayments d) = prev # rest"
    by (cases "order_desc (db_repayments d)") auto
  with nv that show thesis by blast
qed

lemma new_row_fields [simp]:
  "amount_paid (new_row d prev form) = amountPaid form"
  "repayment_date (new_row d prev form) = repaymentDate form"
  "interest_amount (new_row d prev form) =
     calculateInterest (total_paid (db_repayments d) \<ge> amount (db_loan d)) prev
       (repaymentDate form) (interest_rate (db_loan d))"
  "remaining_balance (new_row d prev form) =
     max 0 (remaining_balance prev - amountPaid form + interest_amount (new_row d prev form))"
  by (simp_all add: new_row_def Let_def)

lemma recordPayment_submitted_status:
  assumes "\<not> preconditions_violated setMonth d form"
    and "order_desc (db_repayments d) = prev # rest"
  shows "status (db_loan (snd (recordPayment setMonth now form d))) =
     (if remaining_balance prev - amountPaid form + interest_amount (new_row d prev form) \<le> 0
      then ''finished''
      else if total_paid (db_repayments d) + amountPaid form \<ge> amount (db_loan d)
              \<and> (total_paid (db_repayments d) < amount (db_loan d)
                   \<or> status (db_loan d) = ''active'')
      then ''principal paid'' else status (db_loan d))"
    and "status_updates (snd (recordPayment setMonth now form d)) =
      status_updates d
      @ (if total_paid (db_repayments d) + amountPaid form \<ge> amount (db_loan d)
              \<and> (total_paid (db_repayments d) < amount (db_loan d)
                   \<or> status (db_loan d) = ''active'')
         then [''principal paid''] else [])
      @ (if remaining_balance prev - amountPaid form + interest_amount (new_row d prev form) \<le> 0
         then [''finished''] else [])"
proof -
  have pos: "0 < amountPaid form"
    using assms(1) by (simp add: preconditions_violated_def)
  show "status (db_loan (snd (recordPayment setMonth now form d))) =
     (if remaining_balance prev - amountPaid form + interest_amount (new_row d prev form) \<le> 0
      then ''finished''
      else if total_paid (db_repayments d) + amountPaid form \<ge> amount (db_loan d)
              \<and> (total_paid (db_repayments d) < amount (db_loan d)
                   \<or> status (db_loan d) = ''active'')
      then ''principal paid'' else status (db_loan d))"
    unfolding recordPayment_submitted_db [OF assms] Let_def using pos by auto
  show "status_updates (snd (recordPayment setMonth now form d)) =
      status_updates d
      @ (if total_paid (db_repayments d) + amountPaid form \<ge> amount (db_loan d)
              \<and> (total_paid (db_repayments d) < amount (db_loan d)
                   \<or> status (db_loan d) = ''active'')
         then [''principal paid''] else [])
      @ (if remaining_balance prev - amountPaid form + interest_amount (new_row d prev form) \<le> 0
         then [''finished''] else [])"
    unfolding recordPayment_submitted_db [OF assms] Let_def using pos by auto
qed

section \<open>Paying the whole balance\<close>




section \<open>Validation\<close>

text \<open>
  Claim C6.  Recording a payment ends in a validation error exactly when the amount is not
  positive, the amount exceeds the current remaining balance, the date lies before the most
  recent repayment (the start date if there is none), or the date lies beyond the start
  date plus the term in months.  The error names the field: the amount message is set
  exactly for the two amount conditions, the date message exactly for the two date
  conditions.  A rejected submission leaves the store and the component state as they were
  when the form was opened, so no repayment is inserted and no status is written.
\<close>

theorem recordPayment_validation:
  "(is_validation_error (fst (recordPayment setMonth now form d))
      \<longleftrightarrow> preconditions_violated setMonth d form)
   \<and> (\<forall>a b. fst (recordPayment setMonth now form d) = ValidationError a b \<longrightarrow>
         (a \<noteq> NoError \<longleftrightarrow> amountPaid form \<le> 0 \<or> amountPaid form > current_balance d)
         \<and> (b \<noteq> NoError \<longleftrightarrow>
              repaymentDate form < previous_date d
              \<or> repaymentDate form > setMonth (start_date (db_loan d)) (term_months (db_loan d))))
   \<and> (preconditions_violated setMonth d form \<longrightarrow>
         snd (handleSubmitPayment setMonth now form (fst (openForPayment now d))
                (snd (openForPayment now d))) = openForPayment now d
         \<and> db_repayments (snd (recordPayment setMonth now form d)) = db_repayments d)"
proof -
  let ?o = "openForPayment now d"
  have iff: "is_validation_error (fst (recordPayment setMonth now form d))
      \<longleftrightarrow> preconditions_violated setMonth d form"
  proof (cases "preconditions_violated setMonth d form")
    case True
    then show ?thesis by (simp add: recordPayment_violated(1))
  next
    case False
    show ?thesis
    proof (cases "db_repayments d = []")
      case True
      with False show ?thesis by (simp add: recordPayment_no_previous(1))
    next
      case ne: False
      with False have "fst (recordPayment setMonth now form d) = Submitted"
        by (simp add: recordPayment_Submitted_iff)
      with False show ?thesis by simp
    qed
  qed
  have msgs: "(a \<noteq> NoError \<longleftrightarrow> amountPaid form \<le> 0 \<or> amountPaid form > current_balance d)
         \<and> (b \<noteq> NoError \<longleftrightarrow>
              repaymentDate form < previous_date d
              \<or> repaymentDate form > setMonth (start_date (db_loan d)) (term_months (db_loan d)))"
    if v: "fst (recordPayment setMonth now form d) = ValidationError a b" for a b
  proof -
    from v iff have pv: "preconditions_violated setMonth d form" by simp
    then have inv: "input_invalid setMonth (db_loan (fst ?o)) (snd ?o) form"
      by (simp add: opened_invalid)
    from v have "a = snd (validatePaymentInput setMonth (db_loan (fst ?o)) (snd ?o)
                            (Amount (amountPaid form)))"
      and "b = snd (validatePaymentInput setMonth (db_loan (fst ?o)) (snd ?o)
                            (Date (repaymentDate form)))"
      by (simp_all add: recordPayment_unfold handleSubmitPayment_invalid [OF inv])
    then show ?thesis
      by (simp add: openForPayment_cells previous_date_def latest_repayment_def Let_def
          split: list.split)
  qed
  have same: "snd (handleSubmitPayment setMonth now form (fst ?o) (snd ?o)) = ?o
         \<and> db_repayments (snd (recordPayment setMonth now form d)) = db_repayments d"
    if "preconditions_violated setMonth d form"
    using that by (simp add: recordPayment_violated(2,3))
  from iff msgs same show ?thesis by blast
qed

text \<open>Scenario C: 10001 against a balance of 10000 is rejected on the amount; 2000 goes through.\<close>

theorem recordPayment_validation_witness:
  "preconditions_violated setMonth_utc db_A form_over
   \<and> recordPayment setMonth_utc 1738300000000 form_over db_A =
       (ValidationError (AmountExceedsBalance 10000) NoError, db_A)
   \<and> \<not> preconditions_violated setMonth_utc db_A form_A1
   \<and> fst (recordPayment setMonth_utc 1738300000000 form_A1 db_A) = Submitted"
proof -
  have a: "preconditions_violated setMonth_utc db_A form_over"
    by code_simp
  have b: "\<not> preconditions_violated setMonth_utc db_A form_A1"
    by code_simp
  have c: "recordPayment setMonth_utc 1738300000000 form_over db_A =
       (ValidationError (AmountExceedsBalance 10000) NoError, db_A)"
    by code_simp
  have d: "fst (recordPayment setMonth_utc 1738300000000 form_A1 db_A) = Submitted"
    by code_simp
  from recordPayment_validation [of setMonth_utc 1738300000000 form_over db_A]
  have "is_validation_error (fst (recordPayment setMonth_utc 1738300000000 form_over db_A))
      \<longleftrightarrow> preconditions_violated setMonth_utc db_A form_over"
    by blast
  with a b c d show ?thesis by simp
qed

section \<open>The status of a loan\<close>

lemma recordPayment_status_cases:
  "status (db_loan (snd (recordPayment setMonth now form d))) = status (db_loan d)
   \<or> status (db_loan (snd (recordPayment setMonth now form d))) = ''principal paid''
   \<or> status (db_loan (snd (recordPayment setMonth now form d))) = ''finished''"
proof (cases "preconditions_violated setMonth d form")
  case True
  then show ?thesis by (simp add: recordPayment_violated(2) openForPayment_db)
next
  case False
  show ?thesis
  proof (cases "order_desc (db_repayments d)")
    case Nil
    then have "db_repayments d = []" by simp
    with False show ?thesis by (simp add: recordPayment_no_previous(2) openForPayment_db)
  next
    case (Cons prev rest)
    show ?thesis
      by (simp add: recordPayment_submitted_status(1) [OF False Cons])
  qed
qed

lemma handleMarkAsFinished_status:
  "status (db_loan (fst (handleMarkAsFinished now d st))) = ''finished''"
  by (simp add: handleMarkAsFinished_def Let_def)

lemma perform_status_cases:
  "perform setMonth now a d = d
   \<or> (status (db_loan d) \<noteq> ''finished''
       \<and> (status (db_loan (perform setMonth now a d)) = status (db_loan d)
            \<or> status (db_loan (perform setMonth now a d)) = ''principal paid''
            \<or> status (db_loan (perform setMonth now a d)) = ''finished''))"
proof (cases a)
  case (RecordPayment form)
  then show ?thesis
    using recordPayment_status_cases [of setMonth now form d]
    by (auto simp: recordPaymentOffered_def)
next
  case MarkAsFinished
  then show ?thesis
    by (simp add: clickMarkAsFinished_def markAsFinishedOffered_def markFinished_def
        handleMarkAsFinished_status)
qed



section \<open>Marking a loan as finished\<close>

text \<open>The 5000 loan is what the modal records for a full payment on day 10.\<close>

lemma db_D_recorded: "recordPayment setMonth_utc 1736553600000
    \<lparr>amountPaid = 5000, paymentMethod = ''Cash'', repaymentDate = 1736553600000, form_notes = ''''\<rparr>
    \<lparr>db_loan = \<lparr>amount = 5000, interest_rate = 365 / 10, term_months = 12,
                  start_date = 1735689600000, status = ''active''\<rparr>,
      db_repayments =
        [\<lparr>repayment_date = 1735689600000, amount_paid = 0, interest_amount = 0,
          remaining_balance = 5000, payment_method = ''Cash'', repayment_notes = ''''\<rparr>],
      status_updates = []\<rparr> = (Submitted, db_D)"
  by code_simp

lemma handleMarkAsFinished_rows:
  "db_repayments (fst (handleMarkAsFinished now d st)) =
     (if remainingBalance st > 0 then db_repayments d @ [closing_entry now (remainingBalance st)]
      else db_repayments d)"
  by (simp add: handleMarkAsFinished_def Let_def closing_entry_def)

text \<open>
  Claim C9.  Marking a loan as finished inserts exactly one closing repayment when the
  remaining balance is above 0: the amount paid is that balance, the interest is 0, the
  remaining balance is 0 and the payment method is ``System''.  With a balance of 0 nothing
  is inserted.  In both cases the status is finished afterwards, and it stays finished when
  the loan is marked again.  This holds for the handler on the balance cell of the
  component and for the modal opened on the loan, where the cell is the current balance.
\<close>

theorem markFinished_closes:
  "(if remainingBalance st > 0
    then (\<exists>r. db_repayments (fst (handleMarkAsFinished now d st)) = db_repayments d @ [r]
            \<and> amount_paid r = remainingBalance st \<and> interest_amount r = 0
            \<and> remaining_balance r = 0 \<and> payment_method r = ''System'')
    else db_repayments (fst (handleMarkAsFinished now d st)) = db_repayments d)
   \<and> status (db_loan (fst (handleMarkAsFinished now d st))) = ''finished''
   \<and> (if current_balance d > 0
       then (\<exists>r. db_repayments (markFinished now d) = db_repayments d @ [r]
               \<and> amount_paid r = current_balance d \<and> interest_amount r = 0
               \<and> remaining_balance r = 0 \<and> payment_method r = ''System'')
       else db_repayments (markFinished now d) = db_repayments d)
   \<and> status (db_loan (markFinished now d)) = ''finished''
   \<and> status (db_loan (markFinished now' (markFinished now d))) = ''finished''"
  by (simp add: markFinished_def handleMarkAsFinished_rows handleMarkAsFinished_status
      fetchRepayments_cells closing_entry_def)

text \<open>
  Scenario D with the 5000 loan: a balance of 50 is closed by a system entry of 50.  The
  worked loan after its three payments has a balance of 0 and gets no entry.
\<close>

theorem markFinished_scenario_D:
  "current_balance db_D = 50
   \<and> map amount_paid (db_repayments (markFinished 1736600000000 db_D)) = [0, 5000, 50]
   \<and> map interest_amount (db_repayments (markFinished 1736600000000 db_D)) = [0, 50, 0]
   \<and> map remaining_balance (db_repayments (markFinished 1736600000000 db_D)) = [5000, 50, 0]
   \<and> map payment_method (db_repayments (markFinished 1736600000000 db_D))
       = [''Cash'', ''Cash'', ''System'']
   \<and> status (db_loan (markFinished 1736600000000 db_D)) = ''finished''
   \<and> current_balance db_B3 = 0
   \<and> db_repayments (markFinished 1743600000000 db_B3) = db_repayments db_B3"
proof -
  have a: "current_balance db_D = 50" "current_balance db_B3 = 0"
    by code_simp+
  have b: "map amount_paid (db_repayments (markFinished 1736600000000 db_D)) = [0, 5000, 50]"
    "map interest_amount (db_repayments (markFinished 1736600000000 db_D)) = [0, 50, 0]"
    "map remaining_balance (db_repayments (markFinished 1736600000000 db_D)) = [5000, 50, 0]"
    "map payment_method (db_repayments (markFinished 1736600000000 db_D))
       = [''Cash'', ''Cash'', ''System'']"
    by code_simp+
  from markFinished_closes [where now = 1736600000000 and d = db_D]
  have c: "status (db_loan (markFinished 1736600000000 db_D)) = ''finished''"
    by blast
  from markFinished_closes [where now = 1743600000000 and d = db_B3]
  have "if current_balance db_B3 > 0
       then (\<exists>r. db_repayments (markFinished 1743600000000 db_B3) = db_repayments db_B3 @ [r]
               \<and> amount_paid r = current_balance db_B3 \<and> interest_amount r = 0
               \<and> remaining_balance r = 0 \<and> payment_method r = ''System'')
       else db_repayments (markFinished 1743600000000 db_B3) = db_repayments db_B3"
    by blast
  then have e: "db_repayments (markFinished 1743600000000 db_B3) = db_repayments db_B3"
    unfolding a by simp
  from a b c e show ?thesis by blast
qed

text \<open>
  Claim C10.  The button is offered only while the balance cell is strictly between 0 and
  100 and the loan is not finished; the closing entry takes its amount from that cell.  So
  whenever the offered action runs, the entry it inserts is a system entry with an amount
  above 0 and below 100; through the modal the action changes the store exactly when the
  current balance is strictly between 0 and 100 and the loan is not finished.
\<close>

theorem markFinished_guard:
  "(markAsFinishedOffered d st \<longrightarrow>
      (\<exists>r. db_repayments (fst (handleMarkAsFinished now d st)) = db_repayments d @ [r]
           \<and> payment_method r = ''System'' \<and> amount_paid r = remainingBalance st
           \<and> 0 < amount_paid r \<and> amount_paid r < 100))
   \<and> (clickMarkAsFinished now d = d
       \<or> (\<exists>r. db_repayments (clickMarkAsFinished now d) = db_repayments d @ [r]
             \<and> payment_method r = ''System'' \<and> amount_paid r = current_balance d
             \<and> 0 < amount_paid r \<and> amount_paid r < 100
             \<and> status (db_loan d) \<noteq> ''finished''))
   \<and> (clickMarkAsFinished now d \<noteq> d \<longleftrightarrow>
         0 < current_balance d \<and> current_balance d < 100 \<and> status (db_loan d) \<noteq> ''finished'')"
proof -
  have a: "\<exists>r. db_repayments (fst (handleMarkAsFinished now d st)) = db_repayments d @ [r]
           \<and> payment_method r = ''System'' \<and> amount_paid r = remainingBalance st
           \<and> 0 < amount_paid r \<and> amount_paid r < 100"
    if "markAsFinishedOffered d st" for st
    using that by (simp add: markAsFinishedOffered_def handleMarkAsFinished_rows closing_entry_def)
  let ?st = "fetchRepayments now d initial_ui"
  have off: "markAsFinishedOffered d ?st \<longleftrightarrow>
      0 < current_balance d \<and> current_balance d < 100 \<and> status (db_loan d) \<noteq> ''finished''"
    by (simp add: markAsFinishedOffered_def fetchRepayments_cells)
  have b: "clickMarkAsFinished now d = d
       \<or> (\<exists>r. db_repayments (clickMarkAsFinished now d) = db_repayments d @ [r]
             \<and> payment_method r = ''System'' \<and> amount_paid r = current_balance d
             \<and> 0 < amount_paid r \<and> amount_paid r < 100
             \<and> status (db_loan d) \<noteq> ''finished'')"
  proof (cases "markAsFinishedOffered d ?st")
    case True
    with a [OF True] off show ?thesis
      by (simp add: clickMarkAsFinished_def markFinished_def fetchRepayments_cells)
  next
    case False
    then show ?thesis by (simp add: clickMarkAsFinished_def)
  qed
  have c: "clickMarkAsFinished now d \<noteq> d \<longleftrightarrow>
         0 < current_balance d \<and> current_balance d < 100 \<and> status (db_loan d) \<noteq> ''finished''"
  proof (cases "markAsFinishedOffered d ?st")
    case True
    then have "status (db_loan (clickMarkAsFinished now d)) = ''finished''"
      by (simp add: clickMarkAsFinished_def markFinished_def handleMarkAsFinished_status)
    moreover from True have "status (db_loan d) \<noteq> ''finished''"
      by (simp add: markAsFinishedOffered_def)
    ultimately have "clickMarkAsFinished now d \<noteq> d" by auto
    with True off show ?thesis by simp
  next
    case False
    with off show ?thesis by (simp add: clickMarkAsFinished_def)
  qed
  from a b c show ?thesis by blast
qed

text \<open>The 5000 loan is offered the action and closed with 50; the worked loan at 10000 is not.\<close>

theorem markFinished_guard_witness:
  "markAsFinishedOffered db_D (fetchRepayments 1736600000000 db_D initial_ui)
   \<and> map amount_paid (db_repayments (clickMarkAsFinished 1736600000000 db_D)) = [0, 5000, 50]
   \<and> clickMarkAsFinished 1736600000000 db_D \<noteq> db_D
   \<and> current_balance db_A = 10000
   \<and> clickMarkAsFinished 1736600000000 db_A = db_A"
proof -
  have a: "markAsFinishedOffered db_D (fetchRepayments 1736600000000 db_D initial_ui)"
    by code_simp
  have b: "map amount_paid (db_repayments (clickMarkAsFinished 1736600000000 db_D)) = [0, 5000, 50]"
    by code_simp
  have c: "current_balance db_D = 50" "status (db_loan db_D) \<noteq> ''finished''"
    "current_balance db_A = 10000"
    by code_simp+
  from markFinished_guard [of db_D "fetchRepayments 1736600000000 db_D initial_ui" 1736600000000] c
  have "clickMarkAsFinished 1736600000000 db_D \<noteq> db_D" by simp
  moreover from markFinished_guard [of db_A initial_ui 1736600000000] c
  have "clickMarkAsFinished 1736600000000 db_A = db_A" by simp
  ultimately show ?thesis using a b c by simp
qed

section \<open>Projection and dashboard metrics\<close>

lemma foldl_plus:
  "foldl (\<lambda>sum x. sum + f x) a xs = (a :: rat) + sum_list (map f xs)"
  by (induction xs arbitrary: a) simp_all

lemma metrics_loop_sums:
  "metrics_loop ls (ti, to) =
     (ti + sum_list (map projection_30 (loans_read ls)),
      to + sum_list (map (\<lambda>lr. loan_balance (fst lr) (snd lr)) (loans_read ls)))"
proof (induction ls arbitrary: ti to)
  case Nil
  show ?case by simp
next
  case (Cons x xs)
  obtain l f where x: "x = (l, f)" by (cases x)
  show ?case
  proof (cases f)
    case None
    with x Cons.IH show ?thesis by simp
  next
    case (Some rows)
    with x Cons.IH show ?thesis
      by (cases "order_desc rows")
        (simp_all add: Let_def projection_30_def loan_balance_def algebra_simps)
  qed
qed

lemma fetchLoanMetrics_totals:
  "totalPrincipal (fetchLoanMetrics ls) =
     sum_list (map (\<lambda>l. amount (fst l)) (filter (\<lambda>l. status (fst l) = ''active'') ls))"
  "interestToBePaid (fetchLoanMetrics ls) =
     sum_list (map projection_30 (loans_read (filter (\<lambda>l. status (fst l) = ''active'') ls)))"
  "outstandingAmount (fetchLoanMetrics ls) =
     sum_list (map (\<lambda>lr. loan_balance (fst lr) (snd lr))
                 (loans_read (filter (\<lambda>l. status (fst l) = ''active'') ls)))
     + sum_list (map (\<lambda>l. amount (fst l)) (filter (\<lambda>l. status (fst l) = ''active'') ls))"
  "activeLoans (fetchLoanMetrics ls) = length (filter (\<lambda>l. status (fst l) = ''active'') ls)"
  by (simp_all add: fetchLoanMetrics_def Let_def foldl_plus metrics_loop_sums)

lemma calendar_days_30: "calendar_days (t + 2592000000) t = 30"
  by (simp add: calendar_days_def)




text \<open>
  Claim C8 at one active loan of 10000 whose table holds the opening row, and at the same
  loan with an empty table: the outstanding balance is 10000 and the page reports an
  outstanding amount of 20000, the balance plus the principal again
  (\<open>fetchLoanMetrics_totals\<close> is the general form).
\<close>

theorem outstanding_amount_adds_principal:
  "status loan_A = ''active''
   \<and> loan_balance loan_A [origin_A] = 10000
   \<and> totalPrincipal (fetchLoanMetrics [(loan_A, Some [origin_A])]) = 10000
   \<and> outstandingAmount (fetchLoanMetrics [(loan_A, Some [origin_A])]) = 20000
   \<and> loan_balance loan_A [] = 10000
   \<and> outstandingAmount (fetchLoanMetrics [(loan_A, Some [])]) = 20000"
  by code_simp

end
